theory Spec2Isabelle
  imports Main "HOL-Library.AList"
begin

section \<open>The session, credential and preference-memory core of \<open>MemoryAgent\<close>\<close>

text \<open>
  The development embeds \<^verbatim>\<open>src/memory.py\<close> (class \<^verbatim>\<open>MemoryAgent\<close>) and the
  login, signup and logout handlers of \<^verbatim>\<open>src/main.py\<close>.

  What the program takes from outside is an explicit input of the model:
  \<^item> the two clocks (\<^verbatim>\<open>datetime.now()\<close> of the process and \<^verbatim>\<open>datetime()\<close> of the
    graph store) and the draw of \<^verbatim>\<open>secrets.token_urlsafe(32)\<close> are the fields of an
    \<open>env\<close> record handed to each call; a time is an \<open>int\<close> counting microseconds
    (the resolution of \<^verbatim>\<open>datetime\<close>), so that the subtraction of two readings is
    the \<^verbatim>\<open>timedelta\<close> of the source;
  \<^item> \<^verbatim>\<open>hashlib.sha256(...).hexdigest()\<close> is a parameter \<open>sha256_hex\<close> of the
    functions that hash;
  \<^item> the graph store is a property graph (labelled nodes with properties, typed
    directed edges) and every Cypher query of the source is a function on it. The
    driver is the synchronous one (\<^verbatim>\<open>GraphDatabase.driver\<close>): its
    \<^verbatim>\<open>execute_query\<close> sends the keyword arguments of the call whose names do not
    end in an underscore as the parameters of the query, and returns an
    \<^verbatim>\<open>EagerResult\<close>, the named tuple \<^verbatim>\<open>(records, summary, keys)\<close>, or raises. The
    model keeps the list of records, which is what \<^verbatim>\<open>result[0]\<close> reads; the tuple
    itself, having three components, is true as a condition. Whether the next call
    raises for a reason of its own (the store is down) is read off a script of faults
    carried by the agent;
  \<^item> the outcome of the entity extractor (an LLM call) and of the construction of
    \<^verbatim>\<open>GraphRAG\<close> are arguments of \<open>store_user_memory\<close>;
  \<^item> of the standard output only the lines printed by the \<^verbatim>\<open>except\<close> handlers
    are kept.
\<close>

subsection \<open>Exceptions and log lines\<close>

datatype exn =
    Exception string
  | KeyError string
  | UnboundLocalError string
  | TypeError string
  | ClientError string

type_synonym params = "string \<times> string"

datatype log_line =
    Error_creating_user exn
  | Authentication_error exn
  | Error_storing_memory exn
  | Error_storing_preferences exn
  | Parameters_attempted params

subsection \<open>The property graph\<close>

datatype label = User | Memory | Preference | City | Activity

datatype rel = REMEMBERS | HAS_PREFERENCE | VISITED | INTERESTED_IN | DISLIKES

datatype pval = Str string | DateTime int

type_synonym props = "(string \<times> pval) list"

record node =
  nid :: nat
  nlabel :: label
  nprops :: props

record edge =
  esrc :: nat
  etype :: rel
  edst :: nat

record graph =
  nodes :: "node list"
  edges :: "edge list"

text \<open>The identity the store gives a created node: one no node of the graph has.\<close>

primrec fresh_id :: "node list \<Rightarrow> nat" where
  "fresh_id [] = 0"
| "fresh_id (n # ns) = max (Suc (nid n)) (fresh_id ns)"

definition is_user :: "string \<Rightarrow> node \<Rightarrow> bool" where
  "is_user username n \<longleftrightarrow>
     nlabel n = User \<and> map_of (nprops n) ''username'' = Some (Str username)"

definition has_password :: "string \<Rightarrow> node \<Rightarrow> bool" where
  "has_password password n \<longleftrightarrow> map_of (nprops n) ''password'' = Some (Str password)"

definition set_prop :: "string \<Rightarrow> pval \<Rightarrow> node \<Rightarrow> node" where
  "set_prop k v n = n\<lparr>nprops := AList.update k v (nprops n)\<rparr>"

subsection \<open>The agent\<close>

record agent =
  graph :: graph
  faults :: "exn option list"
  user_sessions :: "string \<rightharpoonup> int"
  stdout :: "log_line list"

record env =
  now :: int
  db_now :: int
  token_urlsafe :: string

text \<open>\<^verbatim>\<open>self.session_timeout = timedelta(hours=24)\<close>, in microseconds.\<close>

definition session_timeout :: int where
  "session_timeout = 24 * 3600 * 1000000"

definition print :: "log_line \<Rightarrow> agent \<Rightarrow> agent" where
  "print l a = a\<lparr>stdout := stdout a @ [l]\<rparr>"

text \<open>
  \<^verbatim>\<open>self.driver.execute_query(...)\<close>: the next entry of the fault script decides
  whether the call raises (the graph is then as it was); otherwise the query runs on
  the graph and its records are returned.
\<close>

definition execute_query :: "agent \<Rightarrow> (graph \<Rightarrow> 'r \<times> graph) \<Rightarrow> (exn + 'r) \<times> agent" where
  "execute_query a q =
     (case faults a of
        Some e # fs \<Rightarrow> (Inl e, a\<lparr>faults := fs\<rparr>)
      | None # fs \<Rightarrow> (case q (graph a) of (r, g') \<Rightarrow> (Inr r, a\<lparr>graph := g', faults := fs\<rparr>))
      | [] \<Rightarrow> (case q (graph a) of (r, g') \<Rightarrow> (Inr r, a\<lparr>graph := g'\<rparr>)))"

text \<open>The next call of the driver does not raise.\<close>

definition next_ok :: "agent \<Rightarrow> bool" where
  "next_ok a = (case faults a of [] \<Rightarrow> True | f # _ \<Rightarrow> f = None)"

subsection \<open>The Cypher queries\<close>

text \<open>A record of a query that returns \<^verbatim>\<open>u.username\<close>: its named fields.\<close>

type_synonym row = "(string \<times> pval) list"

text \<open>
  \<^verbatim>\<open>MERGE (u:User {username: $username})
  ON CREATE SET u.password = $password, u.created_at = datetime(), u.last_active = datetime()
  ON MATCH SET u.last_active = datetime()
  RETURN u.username\<close>
\<close>

definition merge_user :: "string \<Rightarrow> string \<Rightarrow> int \<Rightarrow> graph \<Rightarrow> row list \<times> graph" where
  "merge_user username password t g =
     (if filter (is_user username) (nodes g) = []
      then ([[(''u.username'', Str username)]],
            g\<lparr>nodes := nodes g @
                [\<lparr>nid = fresh_id (nodes g), nlabel = User,
                  nprops = [(''username'', Str username), (''password'', Str password),
                            (''created_at'', DateTime t), (''last_active'', DateTime t)]\<rparr>]\<rparr>)
      else (map (\<lambda>n. [(''u.username'', Str username)]) (filter (is_user username) (nodes g)),
            g\<lparr>nodes := map (\<lambda>n. if is_user username n
                                  then set_prop ''last_active'' (DateTime t) n else n)
                             (nodes g)\<rparr>))"

text \<open>
  \<^verbatim>\<open>MATCH (u:User {username: $username, password: $password})
  SET u.last_active = datetime()
  RETURN u.username\<close>
\<close>

definition match_user_password :: "string \<Rightarrow> string \<Rightarrow> int \<Rightarrow> graph \<Rightarrow> row list \<times> graph" where
  "match_user_password username password t g =
     (map (\<lambda>n. [(''u.username'', Str username)])
          (filter (\<lambda>n. is_user username n \<and> has_password password n) (nodes g)),
      g\<lparr>nodes := map (\<lambda>n. if is_user username n \<and> has_password password n
                            then set_prop ''last_active'' (DateTime t) n else n)
                       (nodes g)\<rparr>)"

text \<open>
  A \<^verbatim>\<open>MATCH (u:User {username: $username}) CREATE ...\<close> runs its \<^verbatim>\<open>CREATE\<close> once for
  each matched user node \<open>u\<close>: a new node with the given label and properties, and an
  edge of the given type from \<open>u\<close> to it.
\<close>

fun create_for :: "label \<Rightarrow> props \<Rightarrow> rel \<Rightarrow> node list \<Rightarrow> graph \<Rightarrow> graph" where
  "create_for l ps r [] g = g"
| "create_for l ps r (u # us) g =
     create_for l ps r us
       (g\<lparr>nodes := nodes g @ [\<lparr>nid = fresh_id (nodes g), nlabel = l, nprops = ps\<rparr>],
          edges := edges g @ [\<lparr>esrc = nid u, etype = r, edst = fresh_id (nodes g)\<rparr>]\<rparr>)"


text \<open>
  \<^verbatim>\<open>MATCH (u:User {username: $username})
  CREATE (u)-[:INTERESTED_IN]->(n:Preference {text: $text})\<close>

  This query is given with the parameters as the call sends them, since the call of
  \<^verbatim>\<open>_store_preferences\<close> does not name them one by one: a parameter is a string or
  a map of strings. The store refuses a query that uses a name the call has not
  sent (\<^verbatim>\<open>Neo.ClientError.Statement.ParameterMissing\<close>), and then writes nothing.
\<close>

datatype qval = QStr string | QMap "(string \<times> string) list"

type_synonym kwargs = "(string \<times> qval) list"

definition create_preference :: "kwargs \<Rightarrow> graph \<Rightarrow> (exn + row list) \<times> graph" where
  "create_preference kw g =
     (case (map_of kw ''username'', map_of kw ''text'') of
        (Some (QStr username), Some (QStr t)) \<Rightarrow>
          (Inr [], create_for Preference [(''text'', Str t)] INTERESTED_IN
                     (filter (is_user username) (nodes g)) g)
      | _ \<Rightarrow> (Inl (ClientError ''Neo.ClientError.Statement.ParameterMissing''), g))"

text \<open>
  \<^verbatim>\<open>MATCH (u:User {username: $username})
  OPTIONAL MATCH (u)-[:HAS_PREFERENCE]->(p:Preference)
  OPTIONAL MATCH (u)-[:VISITED]->(c:City)
  OPTIONAL MATCH (u)-[:INTERESTED_IN]->(a:Activity)
  RETURN u, collect(distinct p) as preferences, collect(distinct c) as visited_cities,
         collect(distinct a) as interests\<close>

  One record for each matched user node (the grouping key \<open>u\<close>, field \<open>row_user\<close>),
  none when no user node matches.
\<close>

record pref_row =
  row_user :: node
  preferences :: "node list"
  visited_cities :: "node list"
  interests :: "node list"

definition collect_distinct :: "graph \<Rightarrow> node \<Rightarrow> rel \<Rightarrow> label \<Rightarrow> node list" where
  "collect_distinct g un r l =
     remdups (filter (\<lambda>m. nlabel m = l \<and>
                (nid un, r, nid m) \<in> set (map (\<lambda>e. (esrc e, etype e, edst e)) (edges g)))
              (nodes g))"

definition match_preferences :: "string \<Rightarrow> graph \<Rightarrow> pref_row list \<times> graph" where
  "match_preferences username g =
     (map (\<lambda>un. \<lparr>row_user = un,
                 preferences = collect_distinct g un HAS_PREFERENCE Preference,
                 visited_cities = collect_distinct g un VISITED City,
                 interests = collect_distinct g un INTERESTED_IN Activity\<rparr>)
          (filter (is_user username) (nodes g)),
      g)"

subsection \<open>Sessions\<close>

text \<open>\<^verbatim>\<open>MemoryAgent.validate_session\<close>\<close>

definition validate_session :: "agent \<Rightarrow> env \<Rightarrow> string \<Rightarrow> bool \<times> agent" where
  "validate_session a e session_token =
     (case user_sessions a session_token of
        None \<Rightarrow> (False, a)
      | Some session_time \<Rightarrow>
          if now e - session_time > session_timeout
          then (False, a\<lparr>user_sessions := (user_sessions a)(session_token := None)\<rparr>)
          else (True, a))"

subsection \<open>Credentials\<close>

text \<open>
  \<^verbatim>\<open>MemoryAgent.create_user\<close>: \<^verbatim>\<open>result\<close> is true as a condition, so
  \<^verbatim>\<open>bool(result[0]) if result else False\<close> is true when the list of records is not
  empty.
\<close>

definition create_user ::
  "(string \<Rightarrow> string) \<Rightarrow> agent \<Rightarrow> env \<Rightarrow> string \<Rightarrow> string \<Rightarrow> bool \<times> agent" where
  "create_user sha256_hex a e username password =
     (let hashed_password = sha256_hex password in
      case execute_query a (merge_user username hashed_password (db_now e)) of
        (Inr records, a') \<Rightarrow> (records \<noteq> [], a')
      | (Inl ex, a') \<Rightarrow> (False, print (Error_creating_user ex) a'))"

text \<open>
  \<^verbatim>\<open>MemoryAgent.authenticate_user\<close>: \<^verbatim>\<open>if result and result[0]\<close> holds when the list
  of records is not empty.
\<close>

definition authenticate_user ::
  "(string \<Rightarrow> string) \<Rightarrow> agent \<Rightarrow> env \<Rightarrow> string \<Rightarrow> string \<Rightarrow> string option \<times> agent" where
  "authenticate_user sha256_hex a e username password =
     (let hashed_password = sha256_hex password in
      case execute_query a (match_user_password username hashed_password (db_now e)) of
        (Inr records, a') \<Rightarrow>
          if records \<noteq> []
          then (let session_token = token_urlsafe e in
                (Some session_token,
                 a'\<lparr>user_sessions := (user_sessions a')(session_token \<mapsto> now e)\<rparr>))
          else (None, a')
      | (Inl ex, a') \<Rightarrow> (None, print (Authentication_error ex) a'))"

subsection \<open>Reading preferences\<close>

text \<open>
  \<^verbatim>\<open>MemoryAgent._format_preferences\<close>, as a function of the records \<^verbatim>\<open>result[0]\<close> of
  the \<^verbatim>\<open>EagerResult\<close> it is given. The dictionary it returns is the list of its
  items, \<^verbatim>\<open>{}\<close> the empty list. With no record \<^verbatim>\<open>not result[0]\<close> holds and \<^verbatim>\<open>{}\<close> is
  returned. Otherwise \<^verbatim>\<open>record = result[0]\<close> is the list of the records, not a
  record, and \<^verbatim>\<open>record["preferences"]\<close> indexes a list with a string.
\<close>

type_synonym snapshot = "(string \<times> props list) list"

definition format_preferences :: "pref_row list \<Rightarrow> exn + snapshot" where
  "format_preferences records =
     (case records of
        [] \<Rightarrow> Inr []
      | record # _ \<Rightarrow> Inl (TypeError ''list indices must be integers or slices, not str''))"

text \<open>
  \<^verbatim>\<open>await\<close> applied to the value the synchronous \<^verbatim>\<open>execute_query\<close> has returned:
  an \<^verbatim>\<open>EagerResult\<close> is not awaitable.
\<close>

definition await_result :: "'r \<Rightarrow> exn + 'r" where
  "await_result eager_result =
     Inl (TypeError ''object EagerResult can not be used in await expression'')"

text \<open>
  \<^verbatim>\<open>MemoryAgent.get_user_preferences\<close> has no handler: what the driver or the
  \<^verbatim>\<open>await\<close> raises reaches the caller. The query has run by the time the \<^verbatim>\<open>await\<close>
  is evaluated.
\<close>

definition get_user_preferences :: "agent \<Rightarrow> string \<Rightarrow> (exn + snapshot) \<times> agent" where
  "get_user_preferences a username =
     (case execute_query a (match_preferences username) of
        (Inr eager_result, a') \<Rightarrow>
          (case await_result eager_result of
             Inr result \<Rightarrow> (format_preferences result, a')
           | Inl ex \<Rightarrow> (Inl ex, a'))
      | (Inl ex, a') \<Rightarrow> (Inl ex, a'))"

subsection \<open>Writing extracted facts\<close>

record entity =
  properties :: "(string \<times> string) list"

type_synonym relationship = string

text \<open>An element of \<^verbatim>\<open>extracted_data\<close>: a dictionary with the keys it may have.\<close>

record extracted =
  entities :: "entity list option"
  relationships :: "relationship list option"


text \<open>
  The loops of \<^verbatim>\<open>MemoryAgent._store_preferences\<close>. Each returns the exception that
  left it (if any), the binding of the local \<^verbatim>\<open>params\<close> at that point (\<open>None\<close> while
  it is unbound) and the agent. \<^verbatim>\<open>entity.properties["text"]\<close> raises \<^verbatim>\<open>KeyError\<close>
  before \<^verbatim>\<open>params\<close> is assigned. The loop over the relationships only prints.

  The call is \<^verbatim>\<open>execute_query(query, parameters=params, database_="neo4j")\<close>: the one
  keyword without a final underscore is \<^verbatim>\<open>parameters\<close>, so the driver sends one
  parameter of that name, whose value is the dictionary. (The other calls of the
  class name each parameter of their query as a keyword of its own.)
\<close>

fun store_entities ::
  "agent \<Rightarrow> string \<Rightarrow> params option \<Rightarrow> entity list \<Rightarrow> exn option \<times> params option \<times> agent" where
  "store_entities a username p [] = (None, p, a)"
| "store_entities a username p (en # es) =
     (case map_of (properties en) ''text'' of
        None \<Rightarrow> (Some (KeyError ''text''), p, a)
      | Some t \<Rightarrow>
          (case execute_query a
                  (create_preference
                     [(''parameters'', QMap [(''username'', username), (''text'', t)])]) of
             (Inl ex, a') \<Rightarrow> (Some ex, Some (username, t), a')
           | (Inr (Inl ex), a') \<Rightarrow> (Some ex, Some (username, t), a')
           | (Inr (Inr result), a') \<Rightarrow> store_entities a' username (Some (username, t)) es))"

fun store_data ::
  "agent \<Rightarrow> string \<Rightarrow> params option \<Rightarrow> extracted list \<Rightarrow> exn option \<times> params option \<times> agent" where
  "store_data a username p [] = (None, p, a)"
| "store_data a username p (d # ds) =
     (case entities d of
        None \<Rightarrow> store_data a username p ds
      | Some es \<Rightarrow>
          (case store_entities a username p es of
             (Some ex, p', a') \<Rightarrow> (Some ex, p', a')
           | (None, p', a') \<Rightarrow> store_data a' username p' ds))"

text \<open>
  \<^verbatim>\<open>MemoryAgent._store_preferences\<close>. The result is the exception that reaches the
  caller, \<open>None\<close> when the call returns: the handler prints \<^verbatim>\<open>params\<close>, which raises
  \<^verbatim>\<open>UnboundLocalError\<close> when the loop failed before its first assignment.
\<close>

definition store_preferences :: "agent \<Rightarrow> string \<Rightarrow> extracted list \<Rightarrow> exn option \<times> agent" where
  "store_preferences a username extracted_data =
     (case store_data a username None extracted_data of
        (None, p, a') \<Rightarrow> (None, a')
      | (Some ex, p, a') \<Rightarrow>
          (case p of
             None \<Rightarrow> (Some (UnboundLocalError ''params''),
                      print (Error_storing_preferences ex) a')
           | Some ps \<Rightarrow> (None, print (Parameters_attempted ps)
                                 (print (Error_storing_preferences ex) a'))))"

subsection \<open>Writing a memory\<close>



subsection \<open>The handlers of the user interface\<close>

text \<open>The part of \<^verbatim>\<open>st.session_state\<close> that login, signup and logout touch.\<close>

record session_state =
  ss_memory_agent :: agent
  ss_authenticated :: bool
  ss_username :: "string option"
  ss_session_token :: "string option"

text \<open>\<^verbatim>\<open>handle_login\<close>: \<^verbatim>\<open>if session_token:\<close> holds for a token that is a non-empty string.\<close>

definition handle_login ::
  "(string \<Rightarrow> string) \<Rightarrow> session_state \<Rightarrow> env \<Rightarrow> string \<Rightarrow> string \<Rightarrow> bool \<times> session_state" where
  "handle_login sha256_hex st e username password =
     (case authenticate_user sha256_hex (ss_memory_agent st) e username password of
        (tok, a') \<Rightarrow>
          if tok \<noteq> None \<and> tok \<noteq> Some []
          then (True, st\<lparr>ss_memory_agent := a', ss_authenticated := True,
                         ss_username := Some username, ss_session_token := tok\<rparr>)
          else (False, st\<lparr>ss_memory_agent := a'\<rparr>))"

text \<open>\<^verbatim>\<open>handle_signup\<close>; \<open>e1\<close> is read by \<^verbatim>\<open>create_user\<close>, \<open>e2\<close> by the login.\<close>

definition handle_signup ::
  "(string \<Rightarrow> string) \<Rightarrow> session_state \<Rightarrow> env \<Rightarrow> env \<Rightarrow> string \<Rightarrow> string
     \<Rightarrow> bool \<times> session_state" where
  "handle_signup sha256_hex st e1 e2 username password =
     (case create_user sha256_hex (ss_memory_agent st) e1 username password of
        (success, a') \<Rightarrow>
          if success then handle_login sha256_hex (st\<lparr>ss_memory_agent := a'\<rparr>) e2 username password
          else (False, st\<lparr>ss_memory_agent := a'\<rparr>))"

text \<open>
  The Logout button of \<^verbatim>\<open>chat_interface\<close>: three assignments to the session state.
\<close>

definition logout :: "session_state \<Rightarrow> session_state" where
  "logout st = st\<lparr>ss_authenticated := False, ss_username := None, ss_session_token := None\<rparr>"

subsection \<open>Conditions on a state\<close>

text \<open>None of the next \<open>k\<close> calls of the driver raises.\<close>

definition calls_ok :: "nat \<Rightarrow> agent \<Rightarrow> bool" where
  "calls_ok k a = list_all (\<lambda>f. f = None) (take k (faults a))"

text \<open>Some user node of the graph has this username and this password digest.\<close>

definition registered :: "string \<Rightarrow> string \<Rightarrow> graph \<Rightarrow> bool" where
  "registered username pw g \<longleftrightarrow> (\<exists>n\<in>set (nodes g). is_user username n \<and> has_password pw n)"

subsection \<open>Counting facts\<close>

text \<open>The number of nodes of a label.\<close>

definition count_label :: "label \<Rightarrow> graph \<Rightarrow> nat" where
  "count_label l g = length (filter (\<lambda>n. nlabel n = l) (nodes g))"

subsection \<open>Example states\<close>

text \<open>
  A stand-in for the digest, used where a statement is evaluated at a concrete state:
  like SHA-256 on the passwords below, it sends different passwords to different
  digests.
\<close>

definition ex_hash :: "string \<Rightarrow> string" where
  "ex_hash password = ''h:'' @ password"

definition ex_env :: "int \<Rightarrow> string \<Rightarrow> env" where
  "ex_env t tok = \<lparr>now = t, db_now = t, token_urlsafe = tok\<rparr>"

definition alice_node :: node where
  "alice_node =
     \<lparr>nid = 0, nlabel = User,
      nprops = [(''username'', Str ''alice''), (''password'', Str ''h:s3cret''),
                (''created_at'', DateTime 0), (''last_active'', DateTime 0)]\<rparr>"

definition ex_graph :: graph where
  "ex_graph = \<lparr>nodes = [alice_node], edges = []\<rparr>"

text \<open>Alice is registered and holds the session \<open>T1\<close>, issued at time 0.\<close>

definition ex_agent :: agent where
  "ex_agent = \<lparr>graph = ex_graph, faults = [], user_sessions = [''T1'' \<mapsto> 0], stdout = []\<rparr>"

definition ex_state :: session_state where
  "ex_state =
     \<lparr>ss_memory_agent = ex_agent, ss_authenticated = False, ss_username = None,
      ss_session_token = None\<rparr>"

text \<open>The state of a fresh process on an empty graph.\<close>

definition ex_agent0 :: agent where
  "ex_agent0 =
     \<lparr>graph = \<lparr>nodes = [], edges = []\<rparr>, faults = [], user_sessions = Map.empty, stdout = []\<rparr>"

definition ex_state0 :: session_state where
  "ex_state0 =
     \<lparr>ss_memory_agent = ex_agent0, ss_authenticated = False, ss_username = None,
      ss_session_token = None\<rparr>"

text \<open>The driver raises at its next call.\<close>

definition ex_agent_down :: agent where
  "ex_agent_down = ex_agent\<lparr>faults := [Some (Exception ''ServiceUnavailable'')]\<rparr>"

text \<open>The extraction of the specification's test: one entity, \<open>likes hiking\<close>.\<close>

definition ex_facts :: "extracted list" where
  "ex_facts =
     [\<lparr>entities = Some [\<lparr>properties = [(''text'', ''likes hiking'')]\<rparr>],
       relationships = None\<rparr>]"


section \<open>Properties\<close>

subsection \<open>The driver\<close>

lemma execute_query_ok:
  "next_ok a \<Longrightarrow>
   execute_query a q =
     (Inr (fst (q (graph a))), a\<lparr>graph := snd (q (graph a)), faults := tl (faults a)\<rparr>)"
  by (cases "faults a") (auto simp: execute_query_def next_ok_def split: prod.splits)

lemma execute_query_fault:
  "faults a = Some ex # fs \<Longrightarrow> execute_query a q = (Inl ex, a\<lparr>faults := fs\<rparr>)"
  by (simp add: execute_query_def)

lemma execute_query_sessions:
  "user_sessions (snd (execute_query a q)) = user_sessions a"
  by (auto simp: execute_query_def split: list.splits option.splits prod.splits)

lemma calls_ok_Suc:
  "calls_ok (Suc k) a \<Longrightarrow> next_ok a"
  "calls_ok (Suc k) a \<Longrightarrow> faults a' = tl (faults a) \<Longrightarrow> calls_ok k a'"
  by (cases "faults a"; simp add: calls_ok_def next_ok_def)+

subsection \<open>Properties of nodes under the queries\<close>

lemma set_prop_simps:
  "nid (set_prop k v n) = nid n" "nlabel (set_prop k v n) = nlabel n"
  "map_of (nprops (set_prop k v n)) k = Some v"
  "k' \<noteq> k \<Longrightarrow> map_of (nprops (set_prop k v n)) k' = map_of (nprops n) k'"
  by (simp_all add: set_prop_def update_conv')

lemma set_last_active_keeps:
  "is_user username (set_prop ''last_active'' v n) = is_user username n"
  "has_password pw (set_prop ''last_active'' v n) = has_password pw n"
  by (simp_all add: is_user_def has_password_def set_prop_simps)

lemma bex_map:
  assumes "\<exists>n\<in>set ns. P n" and "\<And>n. P n \<Longrightarrow> P (f n)"
  shows "\<exists>n\<in>set (map f ns). P n"
  using assms by auto

lemma merge_user_registered:
  assumes "\<not> (\<exists>n\<in>set (nodes g). is_user username n) \<or> registered username pw g"
  shows "registered username pw (snd (merge_user username pw t g))"
proof (cases "filter (is_user username) (nodes g) = []")
  case True
  then show ?thesis
    by (simp add: merge_user_def registered_def is_user_def has_password_def)
next
  case False
  then have "registered username pw g"
    using assms by (auto simp: filter_empty_conv)
  then have "\<exists>n\<in>set (map (\<lambda>n. if is_user username n
                                   then set_prop ''last_active'' (DateTime t) n else n)
                            (nodes g)). is_user username n \<and> has_password pw n"
    unfolding registered_def by (rule bex_map) (simp add: set_last_active_keeps)
  then show ?thesis
    using False by (simp add: merge_user_def registered_def)
qed

lemma merge_user_rows: "\<exists>r rs. fst (merge_user username pw t g) = r # rs \<and> r \<noteq> []"
  by (cases "filter (is_user username) (nodes g)") (auto simp: merge_user_def)

lemma match_user_password_rows:
  "fst (match_user_password username pw t g) = [] \<longleftrightarrow> \<not> registered username pw g"
  by (auto simp: match_user_password_def registered_def filter_empty_conv)

lemma match_user_password_registered:
  assumes "registered username pw g"
  shows "registered username pw (snd (match_user_password username pw t g))"
    and "\<exists>r rs. fst (match_user_password username pw t g) = r # rs \<and> r \<noteq> []"
proof -
  have "\<exists>n\<in>set (map (\<lambda>n. if is_user username n \<and> has_password pw n
                              then set_prop ''last_active'' (DateTime t) n else n)
                       (nodes g)). is_user username n \<and> has_password pw n"
    using assms unfolding registered_def by (rule bex_map) (simp add: set_last_active_keeps)
  then show "registered username pw (snd (match_user_password username pw t g))"
    by (simp add: match_user_password_def registered_def)
  have "filter (\<lambda>n. is_user username n \<and> has_password pw n) (nodes g) \<noteq> []"
    using assms by (auto simp: registered_def filter_empty_conv)
  then show "\<exists>r rs. fst (match_user_password username pw t g) = r # rs \<and> r \<noteq> []"
    by (cases "filter (\<lambda>n. is_user username n \<and> has_password pw n) (nodes g)")
       (auto simp: match_user_password_def)
qed

subsection \<open>The calls that succeed\<close>

lemma create_user_ok:
  assumes "next_ok a"
  shows "create_user sha a e username password =
           (True, a\<lparr>graph := snd (merge_user username (sha password) (db_now e) (graph a)),
                    faults := tl (faults a)\<rparr>)"
  using assms merge_user_rows [of username "sha password" "db_now e" "graph a"]
  by (auto simp: create_user_def execute_query_ok)

lemma authenticate_user_ok:
  assumes "next_ok a" and "registered username (sha password) (graph a)"
  shows "authenticate_user sha a e username password =
           (Some (token_urlsafe e),
            a\<lparr>graph := snd (match_user_password username (sha password) (db_now e) (graph a)),
              faults := tl (faults a),
              user_sessions := (user_sessions a)(token_urlsafe e \<mapsto> now e)\<rparr>)"
  using assms(1) match_user_password_registered(2) [OF assms(2), of "db_now e"]
  by (auto simp: authenticate_user_def execute_query_ok Let_def)

lemma authenticate_user_no_match:
  assumes "next_ok a" and "\<not> registered username (sha password) (graph a)"
  shows "authenticate_user sha a e username password =
           (None, a\<lparr>graph := snd (match_user_password username (sha password) (db_now e)
                                    (graph a)),
                    faults := tl (faults a)\<rparr>)"
proof -
  have "fst (match_user_password username (sha password) (db_now e) (graph a)) = []"
    using assms(2) by (simp only: match_user_password_rows not_False_eq_True)
  then show ?thesis
    using assms(1) by (simp add: authenticate_user_def execute_query_ok)
qed

lemma handle_login_ok:
  assumes "next_ok (ss_memory_agent st)"
    and "registered username (sha password) (graph (ss_memory_agent st))"
    and "token_urlsafe e \<noteq> []"
  shows "handle_login sha st e username password =
           (True,
            st\<lparr>ss_memory_agent :=
                 (ss_memory_agent st)
                   \<lparr>graph := snd (match_user_password username (sha password) (db_now e)
                                   (graph (ss_memory_agent st))),
                    faults := tl (faults (ss_memory_agent st)),
                    user_sessions :=
                      (user_sessions (ss_memory_agent st))(token_urlsafe e \<mapsto> now e)\<rparr>,
               ss_authenticated := True, ss_username := Some username,
               ss_session_token := Some (token_urlsafe e)\<rparr>)"
  using assms(3)
  by (simp add: handle_login_def
      authenticate_user_ok [where sha = sha and password = password, OF assms(1,2)])

lemma authenticate_user_ok_or_none:
  "(fst (authenticate_user sha a e username password) = None \<and>
      user_sessions (snd (authenticate_user sha a e username password)) = user_sessions a) \<or>
   (fst (authenticate_user sha a e username password) = Some (token_urlsafe e) \<and>
      user_sessions (snd (authenticate_user sha a e username password)) =
        (user_sessions a)(token_urlsafe e \<mapsto> now e))"
proof -
  obtain r a' where
    q: "execute_query a (match_user_password username (sha password) (db_now e)) = (r, a')"
    by (cases "execute_query a (match_user_password username (sha password) (db_now e))")
  have s: "user_sessions a' = user_sessions a"
    using execute_query_sessions [of a "match_user_password username (sha password) (db_now e)"] q
    by simp
  show ?thesis
    using q s
    by (auto simp: authenticate_user_def print_def Let_def split: sum.splits list.splits)
qed

subsection \<open>Evaluation at the example states\<close>

lemmas ex_defs = ex_agent_def ex_graph_def alice_node_def ex_hash_def ex_env_def ex_state_def
  ex_agent0_def ex_state0_def ex_agent_down_def ex_facts_def

lemma ex_wrong_password:
  "fst (authenticate_user ex_hash ex_agent (ex_env 7 ''T2'') ''alice'' ''wrong'') = None"
  by (simp add: authenticate_user_def execute_query_def match_user_password_def ex_defs
      is_user_def has_password_def)

lemma ex_right_password:
  "fst (authenticate_user ex_hash ex_agent (ex_env 7 ''T2'') ''alice'' ''s3cret'') = Some ''T2''"
  by (simp add: authenticate_user_def execute_query_def match_user_password_def ex_defs
      is_user_def has_password_def Let_def)

subsection \<open>Validation of a session token\<close>

text \<open>
  C3. \<open>validate_session\<close> returns false, changing nothing, for a token that is not a key
  of the session table (a token never issued is such a token); for a token of the
  table whose age \<open>now - issued\<close> exceeds the timeout of 24 hours it deletes the entry
  and returns false; for any other token of the table it returns true.
\<close>

theorem validate_session_cases:
  "session_timeout = 24 * 60 * 60 * 1000000 \<and>
   (user_sessions a tok = None \<longrightarrow> validate_session a e tok = (False, a)) \<and>
   (\<forall>t. user_sessions a tok = Some t \<and> now e - t > session_timeout \<longrightarrow>
        validate_session a e tok =
          (False, a\<lparr>user_sessions := (user_sessions a)(tok := None)\<rparr>)) \<and>
   (\<forall>t. user_sessions a tok = Some t \<and> \<not> now e - t > session_timeout \<longrightarrow>
        validate_session a e tok = (True, a))"
  by (simp add: validate_session_def session_timeout_def)

text \<open>
  The three cases at \<open>ex_agent\<close>: the unknown token \<open>T9\<close>; \<open>T1\<close> one microsecond
  after its 24 hours; \<open>T1\<close> at exactly 24 hours, which is not yet expired.
\<close>

theorem validate_session_cases_witness:
  "validate_session ex_agent (ex_env 5 ''T2'') ''T9'' = (False, ex_agent) \<and>
   fst (validate_session ex_agent (ex_env 86400000001 ''T2'') ''T1'') = False \<and>
   user_sessions (snd (validate_session ex_agent (ex_env 86400000001 ''T2'') ''T1'')) ''T1''
     = None \<and>
   validate_session ex_agent (ex_env 86400000000 ''T2'') ''T1'' = (True, ex_agent)"
proof -
  have absent: "user_sessions ex_agent ''T9'' = None"
    by (simp add: ex_agent_def)
  have late: "user_sessions ex_agent ''T1'' = Some 0 \<and>
              now (ex_env 86400000001 ''T2'') - 0 > session_timeout"
    by (simp add: ex_agent_def ex_env_def session_timeout_def)
  have edge: "user_sessions ex_agent ''T1'' = Some 0 \<and>
              \<not> now (ex_env 86400000000 ''T2'') - 0 > session_timeout"
    by (simp add: ex_agent_def ex_env_def session_timeout_def)
  have c1: "validate_session ex_agent (ex_env 5 ''T2'') ''T9'' = (False, ex_agent)"
    using validate_session_cases [of ex_agent "''T9''" "ex_env 5 ''T2''"] absent by blast
  have c2: "validate_session ex_agent (ex_env 86400000001 ''T2'') ''T1'' =
              (False, ex_agent\<lparr>user_sessions := (user_sessions ex_agent)(''T1'' := None)\<rparr>)"
    using validate_session_cases [of ex_agent "''T1''" "ex_env 86400000001 ''T2''"] late
    by blast
  have c3: "validate_session ex_agent (ex_env 86400000000 ''T2'') ''T1'' = (True, ex_agent)"
    using validate_session_cases [of ex_agent "''T1''" "ex_env 86400000000 ''T2''"] edge
    by blast
  show ?thesis
    unfolding c1 c2 c3 by simp
qed

text \<open>
  C8. Validating a token of the table that has not expired returns true and leaves
  the agent, hence the whole session table, as it was: the issue time of the token
  is still the one recorded at login. Expiry therefore counts from issuance: a later
  validation, more than 24 hours after the issue time, fails however recent the
  last successful validation was.
\<close>

theorem validate_session_frame:
  assumes "user_sessions a tok = Some t" and "now e - t \<le> session_timeout"
  shows "validate_session a e tok = (True, a) \<and>
         user_sessions (snd (validate_session a e tok)) tok = Some t \<and>
         (\<forall>e2. now e2 - t > session_timeout \<longrightarrow>
            fst (validate_session (snd (validate_session a e tok)) e2 tok) = False)"
  using assms by (simp add: validate_session_def)

text \<open>
  \<open>T1\<close>, issued at 0, is validated one microsecond before its 24 hours and again two
  microseconds later.
\<close>

theorem validate_session_frame_witness:
  "validate_session ex_agent (ex_env 86399999999 ''T2'') ''T1'' = (True, ex_agent) \<and>
   user_sessions (snd (validate_session ex_agent (ex_env 86399999999 ''T2'') ''T1'')) ''T1''
     = Some 0 \<and>
   fst (validate_session (snd (validate_session ex_agent (ex_env 86399999999 ''T2'') ''T1''))
          (ex_env 86400000001 ''T2'') ''T1'') = False"
proof -
  have present: "user_sessions ex_agent ''T1'' = Some 0"
    by (simp add: ex_agent_def)
  have fresh: "now (ex_env 86399999999 ''T2'') - 0 \<le> session_timeout"
    by (simp add: ex_env_def session_timeout_def)
  have late: "now (ex_env 86400000001 ''T2'') - 0 > session_timeout"
    by (simp add: ex_env_def session_timeout_def)
  show ?thesis
    using validate_session_frame [OF present fresh] late by blast
qed

subsection \<open>Authentication and the session table\<close>

text \<open>
  C9. When \<open>authenticate_user\<close> returns no token (wrong password, missing user, or an
  exception of the driver) the session table is as it was. When it returns a token,
  the token is the one drawn and the table is the old one with that token mapped to
  the time of the login. So, the drawn token not being in the table already, the
  table changes exactly when a token is returned.
\<close>

theorem authenticate_user_sessions:
  "(fst (authenticate_user sha a e username password) = None \<longrightarrow>
      user_sessions (snd (authenticate_user sha a e username password)) = user_sessions a) \<and>
   (\<forall>t. fst (authenticate_user sha a e username password) = Some t \<longrightarrow>
      t = token_urlsafe e \<and>
      user_sessions (snd (authenticate_user sha a e username password)) =
        (user_sessions a)(t \<mapsto> now e)) \<and>
   (user_sessions a (token_urlsafe e) = None \<longrightarrow>
      (user_sessions (snd (authenticate_user sha a e username password)) \<noteq> user_sessions a
         \<longleftrightarrow> fst (authenticate_user sha a e username password) \<noteq> None))"
proof -
  obtain r a' where
    q: "execute_query a (match_user_password username (sha password) (db_now e)) = (r, a')"
    by (cases "execute_query a (match_user_password username (sha password) (db_now e))")
  have s: "user_sessions a' = user_sessions a"
    using execute_query_sessions [of a "match_user_password username (sha password) (db_now e)"] q
    by simp
  have neq: "user_sessions a (token_urlsafe e) = None \<Longrightarrow>
             (user_sessions a)(token_urlsafe e \<mapsto> now e) \<noteq> user_sessions a"
    by (metis fun_upd_same option.distinct(1))
  show ?thesis
    using q s neq
    by (auto simp: authenticate_user_def print_def Let_def split: sum.splits list.splits)
qed

text \<open>
  At \<open>ex_agent\<close>: a login of Alice with a wrong password, and one with her password
  that draws the token \<open>T2\<close> at time 7.
\<close>

theorem authenticate_user_sessions_witness:
  "user_sessions (snd (authenticate_user ex_hash ex_agent (ex_env 7 ''T2'') ''alice'' ''wrong''))
     = user_sessions ex_agent \<and>
   user_sessions (snd (authenticate_user ex_hash ex_agent (ex_env 7 ''T2'') ''alice'' ''s3cret''))
     = (user_sessions ex_agent)(''T2'' \<mapsto> 7) \<and>
   user_sessions (snd (authenticate_user ex_hash ex_agent (ex_env 7 ''T2'') ''alice'' ''s3cret''))
     \<noteq> user_sessions ex_agent"
proof -
  have fresh: "user_sessions ex_agent (token_urlsafe (ex_env 7 ''T2'')) = None"
    by (simp add: ex_agent_def ex_env_def)
  have e: "now (ex_env 7 ''T2'') = 7" "token_urlsafe (ex_env 7 ''T2'') = ''T2''"
    by (simp_all add: ex_env_def)
  have w: "user_sessions
             (snd (authenticate_user ex_hash ex_agent (ex_env 7 ''T2'') ''alice'' ''wrong''))
           = user_sessions ex_agent"
    using ex_wrong_password
      authenticate_user_sessions [of ex_hash ex_agent "ex_env 7 ''T2''" "''alice''" "''wrong''"]
    by blast
  have r: "user_sessions
             (snd (authenticate_user ex_hash ex_agent (ex_env 7 ''T2'') ''alice'' ''s3cret''))
           = (user_sessions ex_agent)(''T2'' \<mapsto> now (ex_env 7 ''T2''))"
    using ex_right_password
      authenticate_user_sessions [of ex_hash ex_agent "ex_env 7 ''T2''" "''alice''" "''s3cret''"]
    by blast
  have n: "user_sessions
             (snd (authenticate_user ex_hash ex_agent (ex_env 7 ''T2'') ''alice'' ''s3cret''))
           \<noteq> user_sessions ex_agent"
    using ex_right_password fresh
      authenticate_user_sessions [of ex_hash ex_agent "ex_env 7 ''T2''" "''alice''" "''s3cret''"]
    by (metis option.distinct(1))
  show ?thesis using w r n e by simp
qed

text \<open>
  C7. \<open>authenticate_user\<close> returns \<open>None\<close>, and leaves the session table as it was,
  in each of three cases: the user exists but no node of that name carries the digest
  of the password; no user node of that name exists; the driver raises. In the third
  case the exception is not passed on: the call returns \<open>None\<close> like the other two,
  after the line \<^verbatim>\<open>Authentication error: ...\<close> has been printed. The value the
  caller receives is the same in the three cases.
\<close>

theorem authenticate_user_falsy:
  "(next_ok a \<and> (\<exists>n\<in>set (nodes (graph a)). is_user username n) \<and>
    \<not> (\<exists>n\<in>set (nodes (graph a)). is_user username n \<and> has_password (sha password) n) \<longrightarrow>
      fst (authenticate_user sha a e username password) = None \<and>
      user_sessions (snd (authenticate_user sha a e username password)) = user_sessions a) \<and>
   (next_ok a \<and> \<not> (\<exists>n\<in>set (nodes (graph a)). is_user username n) \<longrightarrow>
      fst (authenticate_user sha a e username password) = None \<and>
      user_sessions (snd (authenticate_user sha a e username password)) = user_sessions a) \<and>
   (\<forall>ex fs. faults a = Some ex # fs \<longrightarrow>
      authenticate_user sha a e username password =
        (None, a\<lparr>faults := fs, stdout := stdout a @ [Authentication_error ex]\<rparr>))"
proof -
  have failure: "authenticate_user sha a e username password =
        (None, a\<lparr>faults := fs, stdout := stdout a @ [Authentication_error ex]\<rparr>)"
    if "faults a = Some ex # fs" for ex fs
    using that by (simp add: authenticate_user_def execute_query_fault print_def)
  have no_match: "fst (authenticate_user sha a e username password) = None \<and>
      user_sessions (snd (authenticate_user sha a e username password)) = user_sessions a"
    if "next_ok a" and "\<not> registered username (sha password) (graph a)"
    using authenticate_user_no_match [where sha = sha and password = password, OF that]
    by simp
  show ?thesis
    using no_match failure unfolding registered_def by blast
qed

text \<open>
  At \<open>ex_agent\<close>: Alice with a wrong password, the unknown user Bob, and Alice with
  her own password while the driver raises.
\<close>

theorem authenticate_user_falsy_witness:
  "fst (authenticate_user ex_hash ex_agent (ex_env 7 ''T2'') ''alice'' ''wrong'') = None \<and>
   fst (authenticate_user ex_hash ex_agent (ex_env 7 ''T2'') ''bob'' ''s3cret'') = None \<and>
   authenticate_user ex_hash ex_agent_down (ex_env 7 ''T2'') ''alice'' ''s3cret'' =
     (None, ex_agent\<lparr>stdout := [Authentication_error (Exception ''ServiceUnavailable'')]\<rparr>)"
proof -
  have ok: "next_ok ex_agent"
    by (simp add: next_ok_def ex_defs)
  have alice: "\<exists>n\<in>set (nodes (graph ex_agent)). is_user ''alice'' n"
    by (simp add: ex_defs is_user_def)
  have mismatch: "\<not> (\<exists>n\<in>set (nodes (graph ex_agent)).
                      is_user ''alice'' n \<and> has_password (ex_hash ''wrong'') n)"
    by (simp add: ex_defs has_password_def)
  have bob: "\<not> (\<exists>n\<in>set (nodes (graph ex_agent)). is_user ''bob'' n)"
    by (simp add: ex_defs is_user_def)
  have down: "faults ex_agent_down = [Some (Exception ''ServiceUnavailable'')]"
    by (simp add: ex_defs)
  have c1: "fst (authenticate_user ex_hash ex_agent (ex_env 7 ''T2'') ''alice'' ''wrong'') = None"
    using authenticate_user_falsy [of ex_agent "''alice''" ex_hash "''wrong''" "ex_env 7 ''T2''"]
      ok alice mismatch by blast
  have c2: "fst (authenticate_user ex_hash ex_agent (ex_env 7 ''T2'') ''bob'' ''s3cret'') = None"
    using authenticate_user_falsy [of ex_agent "''bob''" ex_hash "''s3cret''" "ex_env 7 ''T2''"]
      ok bob by blast
  have c3: "authenticate_user ex_hash ex_agent_down (ex_env 7 ''T2'') ''alice'' ''s3cret'' =
              (None, ex_agent_down\<lparr>faults := [],
                 stdout := stdout ex_agent_down @
                   [Authentication_error (Exception ''ServiceUnavailable'')]\<rparr>)"
    using authenticate_user_falsy
      [of ex_agent_down "''alice''" ex_hash "''s3cret''" "ex_env 7 ''T2''"] down
    by blast
  have same: "ex_agent_down\<lparr>faults := [],
                 stdout := stdout ex_agent_down @
                   [Authentication_error (Exception ''ServiceUnavailable'')]\<rparr> =
              ex_agent\<lparr>stdout := [Authentication_error (Exception ''ServiceUnavailable'')]\<rparr>"
    by (simp add: ex_agent_down_def ex_agent_def)
  show ?thesis
    using c1 c2 c3 same by simp
qed

subsection \<open>Registration of an existing user\<close>

text \<open>
  C5. When a user node of that name exists and the query runs, \<open>create_user\<close> returns
  true, whatever the password given. The graph has the same nodes at the same places
  with the same identities and labels and the same edges; every property other than
  \<open>last_active\<close> of every node is as it was, so the stored password digest and
  \<open>created_at\<close> are not overwritten; the user nodes of that name have \<open>last_active\<close>
  set to the time of the store and every other node is untouched. The session table
  is as it was.
\<close>

theorem create_user_existing:
  assumes "next_ok a" and "\<exists>n\<in>set (nodes (graph a)). is_user username n"
  shows "fst (create_user sha a e username password) = True \<and>
         length (nodes (graph (snd (create_user sha a e username password))))
           = length (nodes (graph a)) \<and>
         (\<forall>i<length (nodes (graph a)).
            nid (nodes (graph (snd (create_user sha a e username password))) ! i)
              = nid (nodes (graph a) ! i) \<and>
            nlabel (nodes (graph (snd (create_user sha a e username password))) ! i)
              = nlabel (nodes (graph a) ! i) \<and>
            (\<forall>k. k \<noteq> ''last_active'' \<longrightarrow>
               map_of (nprops (nodes (graph (snd (create_user sha a e username password))) ! i)) k
                 = map_of (nprops (nodes (graph a) ! i)) k) \<and>
            (is_user username (nodes (graph a) ! i) \<longrightarrow>
               map_of (nprops (nodes (graph (snd (create_user sha a e username password))) ! i))
                 ''last_active'' = Some (DateTime (db_now e))) \<and>
            (\<not> is_user username (nodes (graph a) ! i) \<longrightarrow>
               nodes (graph (snd (create_user sha a e username password))) ! i
                 = nodes (graph a) ! i)) \<and>
         edges (graph (snd (create_user sha a e username password))) = edges (graph a) \<and>
         user_sessions (snd (create_user sha a e username password)) = user_sessions a \<and>
         stdout (snd (create_user sha a e username password)) = stdout a"
proof -
  let ?upd = "\<lambda>n. if is_user username n
                   then set_prop ''last_active'' (DateTime (db_now e)) n else n"
  have "filter (is_user username) (nodes (graph a)) \<noteq> []"
    using assms(2) by (simp add: filter_empty_conv)
  then have m: "snd (merge_user username (sha password) (db_now e) (graph a)) =
                  (graph a)\<lparr>nodes := map ?upd (nodes (graph a))\<rparr>"
    by (simp add: merge_user_def)
  have c: "create_user sha a e username password =
             (True, a\<lparr>graph := (graph a)\<lparr>nodes := map ?upd (nodes (graph a))\<rparr>,
                      faults := tl (faults a)\<rparr>)"
    using create_user_ok [OF assms(1), of sha e username password] m by simp
  show ?thesis
    unfolding c by (simp add: set_prop_simps)
qed

text \<open>
  Alice, registered with the digest of \<open>s3cret\<close> at time 0, is registered again at
  time 9 with the password \<open>other\<close>.
\<close>

theorem create_user_existing_witness:
  "fst (create_user ex_hash ex_agent (ex_env 9 ''T2'') ''alice'' ''other'') = True \<and>
   map_of (nprops (nodes (graph (snd (create_user ex_hash ex_agent (ex_env 9 ''T2'')
                                        ''alice'' ''other''))) ! 0)) ''password''
     = Some (Str ''h:s3cret'') \<and>
   map_of (nprops (nodes (graph (snd (create_user ex_hash ex_agent (ex_env 9 ''T2'')
                                        ''alice'' ''other''))) ! 0)) ''created_at''
     = Some (DateTime 0) \<and>
   map_of (nprops (nodes (graph (snd (create_user ex_hash ex_agent (ex_env 9 ''T2'')
                                        ''alice'' ''other''))) ! 0)) ''last_active''
     = Some (DateTime 9)"
proof -
  have ok: "next_ok ex_agent"
    by (simp add: next_ok_def ex_defs)
  have alice: "\<exists>n\<in>set (nodes (graph ex_agent)). is_user ''alice'' n"
    by (simp add: ex_defs is_user_def)
  have first: "0 < length (nodes (graph ex_agent))"
    and user: "is_user ''alice'' (nodes (graph ex_agent) ! 0)"
    and pw: "map_of (nprops (nodes (graph ex_agent) ! 0)) ''password'' = Some (Str ''h:s3cret'')"
    and cr: "map_of (nprops (nodes (graph ex_agent) ! 0)) ''created_at'' = Some (DateTime 0)"
    and t: "db_now (ex_env 9 ''T2'') = 9"
    and k: "''password'' \<noteq> ''last_active''" "''created_at'' \<noteq> ''last_active''"
    by (simp_all add: ex_defs is_user_def)
  note th = create_user_existing [OF ok alice, of ex_hash "ex_env 9 ''T2''" "''other''"]
  show ?thesis
    using th first user pw cr t k by metis
qed

subsection \<open>Signup, then login\<close>

text \<open>
  C2 as stated fails. Alice is registered with the digest of \<open>s3cret\<close>. A signup of
  \<open>alice\<close> with the password \<open>other\<close> (both non-empty) runs \<open>create_user\<close>, which
  matches her node, keeps her digest and returns true; the login that follows finds
  no node with the digest of \<open>other\<close>, so the signup returns false, and so does a
  login with the same credentials afterwards.
\<close>

theorem signup_existing_user_counterexample:
  "''alice'' \<noteq> [] \<and> ''other'' \<noteq> [] \<and>
   fst (handle_signup ex_hash ex_state (ex_env 7 ''T2'') (ex_env 7 ''T2'') ''alice'' ''other'')
     = False \<and>
   fst (handle_login ex_hash
          (snd (handle_signup ex_hash ex_state (ex_env 7 ''T2'') (ex_env 7 ''T2'')
                  ''alice'' ''other''))
          (ex_env 8 ''T3'') ''alice'' ''other'') = False"
  by (simp add: handle_signup_def handle_login_def create_user_def authenticate_user_def
      execute_query_def merge_user_def match_user_password_def is_user_def has_password_def
      set_prop_def ex_defs)

text \<open>
  C2, amended. Let the username be unused, or already registered with the same
  password (some user node of that name carries the digest of the password), let the
  three calls of the driver run, and let the tokens drawn be non-empty strings, as the
  tokens of \<^verbatim>\<open>secrets.token_urlsafe(32)\<close> are. Then, for every username and password,
  signup succeeds and stores its token in the session state, a login with the same
  credentials after it succeeds and stores its token, and that token validates as
  true at any time within 24 hours of the login, so in particular at once.
\<close>

theorem signup_then_login:
  assumes "calls_ok 3 (ss_memory_agent st)"
    and "\<not> (\<exists>n\<in>set (nodes (graph (ss_memory_agent st))). is_user username n) \<or>
         (\<exists>n\<in>set (nodes (graph (ss_memory_agent st))).
            is_user username n \<and> has_password (sha password) n)"
    and "token_urlsafe e2 \<noteq> []" and "token_urlsafe e3 \<noteq> []"
    and "now e4 - now e3 \<le> session_timeout"
  shows "fst (handle_signup sha st e1 e2 username password) = True \<and>
         ss_session_token (snd (handle_signup sha st e1 e2 username password))
           = Some (token_urlsafe e2) \<and>
         fst (handle_login sha (snd (handle_signup sha st e1 e2 username password)) e3
                username password) = True \<and>
         ss_session_token
           (snd (handle_login sha (snd (handle_signup sha st e1 e2 username password)) e3
                   username password)) = Some (token_urlsafe e3) \<and>
         fst (validate_session
                (ss_memory_agent
                   (snd (handle_login sha (snd (handle_signup sha st e1 e2 username password)) e3
                           username password)))
                e4 (token_urlsafe e3)) = True"
proof -
  let ?a = "ss_memory_agent st"
  let ?g1 = "snd (merge_user username (sha password) (db_now e1) (graph ?a))"
  let ?a1 = "?a\<lparr>graph := ?g1, faults := tl (faults ?a)\<rparr>"
  let ?st1 = "st\<lparr>ss_memory_agent := ?a1\<rparr>"
  have ok1: "next_ok ?a"
    using assms(1) by (simp add: numeral_3_eq_3 calls_ok_Suc(1))
  have ok2': "calls_ok 2 ?a1"
    using assms(1) by (simp add: numeral_3_eq_3 numeral_2_eq_2 calls_ok_Suc(2))
  have ok2: "next_ok (ss_memory_agent ?st1)"
    using ok2' by (simp add: numeral_2_eq_2 calls_ok_Suc(1))
  have cu: "create_user sha ?a e1 username password = (True, ?a1)"
    by (rule create_user_ok [OF ok1])
  have reg1: "registered username (sha password) (graph (ss_memory_agent ?st1))"
    using merge_user_registered [of "graph ?a" username "sha password" "db_now e1"] assms(2)
    by (simp add: registered_def)
  note l1 = handle_login_ok [where sha = sha and password = password, OF ok2 reg1 assms(3)]
  have su: "handle_signup sha st e1 e2 username password =
              handle_login sha ?st1 e2 username password"
    by (simp add: handle_signup_def cu)
  obtain st2 where st2: "handle_login sha ?st1 e2 username password = (True, st2)"
    and tok2: "ss_session_token st2 = Some (token_urlsafe e2)"
    and reg2: "registered username (sha password) (graph (ss_memory_agent st2))"
    and f2: "faults (ss_memory_agent st2) = tl (faults ?a1)"
    using l1 match_user_password_registered(1) [OF reg1, of "db_now e2"] by simp
  have "calls_ok (Suc 0) (ss_memory_agent st2)"
    by (rule calls_ok_Suc(2) [OF ok2' [unfolded numeral_2_eq_2] f2])
  then have ok3: "next_ok (ss_memory_agent st2)"
    by (rule calls_ok_Suc(1))
  note l2 = handle_login_ok [where sha = sha and password = password, OF ok3 reg2 assms(4)]
  have v: "fst (validate_session
                  (ss_memory_agent (snd (handle_login sha st2 e3 username password)))
                  e4 (token_urlsafe e3)) = True"
    using assms(5) by (simp add: l2 validate_session_def)
  show ?thesis
    using su st2 tok2 l2 v by simp
qed

text \<open>
  On the empty graph: Alice signs up at time 1 and receives \<open>T1\<close>, logs in at time 2
  and receives \<open>T2\<close>, which is validated at time 2.
\<close>

theorem signup_then_login_witness:
  "fst (handle_signup ex_hash ex_state0 (ex_env 1 ''T1'') (ex_env 1 ''T1'') ''alice'' ''s3cret'')
     = True \<and>
   ss_session_token
     (snd (handle_signup ex_hash ex_state0 (ex_env 1 ''T1'') (ex_env 1 ''T1'')
             ''alice'' ''s3cret'')) = Some ''T1'' \<and>
   fst (handle_login ex_hash
          (snd (handle_signup ex_hash ex_state0 (ex_env 1 ''T1'') (ex_env 1 ''T1'')
                  ''alice'' ''s3cret''))
          (ex_env 2 ''T2'') ''alice'' ''s3cret'') = True \<and>
   ss_session_token
     (snd (handle_login ex_hash
             (snd (handle_signup ex_hash ex_state0 (ex_env 1 ''T1'') (ex_env 1 ''T1'')
                     ''alice'' ''s3cret''))
             (ex_env 2 ''T2'') ''alice'' ''s3cret'')) = Some ''T2'' \<and>
   fst (validate_session
          (ss_memory_agent
             (snd (handle_login ex_hash
                     (snd (handle_signup ex_hash ex_state0 (ex_env 1 ''T1'') (ex_env 1 ''T1'')
                             ''alice'' ''s3cret''))
                     (ex_env 2 ''T2'') ''alice'' ''s3cret'')))
          (ex_env 2 ''T2'') ''T2'') = True"
proof -
  have calls: "calls_ok 3 (ss_memory_agent ex_state0)"
    by (simp add: calls_ok_def ex_defs)
  have unused: "\<not> (\<exists>n\<in>set (nodes (graph (ss_memory_agent ex_state0))). is_user ''alice'' n) \<or>
                (\<exists>n\<in>set (nodes (graph (ss_memory_agent ex_state0))).
                   is_user ''alice'' n \<and> has_password (ex_hash ''s3cret'') n)"
    by (simp add: ex_defs)
  have t1: "token_urlsafe (ex_env 1 ''T1'') \<noteq> []" and t2: "token_urlsafe (ex_env 2 ''T2'') \<noteq> []"
    and at_once: "now (ex_env 2 ''T2'') - now (ex_env 2 ''T2'') \<le> session_timeout"
    by (simp_all add: ex_env_def session_timeout_def)
  have toks: "token_urlsafe (ex_env 1 ''T1'') = ''T1''" "token_urlsafe (ex_env 2 ''T2'') = ''T2''"
    by (simp_all add: ex_env_def)
  show ?thesis
    using signup_then_login
      [where sha = ex_hash and password = "''s3cret''" and ?e1.0 = "ex_env 1 ''T1''",
        OF calls unused t1 t2 at_once]
    unfolding toks .
qed

subsection \<open>Logout\<close>

text \<open>
  C1 as stated fails. Alice logs in at \<open>ex_state\<close> at time 7 and receives the token
  \<open>T2\<close>; she logs out; at time 8 the agent still validates \<open>T2\<close> as true. Logout
  assigns to the session state of the user interface only, and \<open>MemoryAgent\<close> has no
  operation that revokes a token.
\<close>

theorem logout_keeps_token_counterexample:
  "fst (handle_login ex_hash ex_state (ex_env 7 ''T2'') ''alice'' ''s3cret'') = True \<and>
   ss_session_token (snd (handle_login ex_hash ex_state (ex_env 7 ''T2'') ''alice'' ''s3cret''))
     = Some ''T2'' \<and>
   fst (validate_session
          (ss_memory_agent
             (logout (snd (handle_login ex_hash ex_state (ex_env 7 ''T2'') ''alice'' ''s3cret''))))
          (ex_env 8 ''T3'') ''T2'') = True"
  by (simp add: logout_def handle_login_def authenticate_user_def execute_query_def
      match_user_password_def is_user_def has_password_def set_prop_def validate_session_def
      session_timeout_def Let_def ex_defs)

text \<open>
  C1, amended. Logout sets \<open>authenticated\<close> to false and \<open>username\<close> and
  \<open>session_token\<close> of the session state to \<open>None\<close>, and leaves the agent, hence the
  session table, as it is. So after the logout of a token issued by login, the agent
  still validates that token as true until 24 hours after its issue, and the
  validation of every other token is what it was before the logout. (The only removal
  from the session table is the one \<open>validate_session\<close> makes at expiry, C3.)
\<close>

theorem logout_frame:
  assumes "handle_login sha st e username password = (True, st1)"
    and "now e' - now e \<le> session_timeout"
  shows "ss_session_token st1 = Some (token_urlsafe e) \<and>
         ss_authenticated (logout st1) = False \<and>
         ss_username (logout st1) = None \<and>
         ss_session_token (logout st1) = None \<and>
         ss_memory_agent (logout st1) = ss_memory_agent st1 \<and>
         fst (validate_session (ss_memory_agent (logout st1)) e' (token_urlsafe e)) = True \<and>
         (\<forall>tok. validate_session (ss_memory_agent (logout st1)) e' tok =
                validate_session (ss_memory_agent st1) e' tok)"
proof -
  obtain r a' where au: "authenticate_user sha (ss_memory_agent st) e username password = (r, a')"
    by (cases "authenticate_user sha (ss_memory_agent st) e username password")
  have r: "r \<noteq> None" and st1: "st1 = st\<lparr>ss_memory_agent := a', ss_authenticated := True,
                           ss_username := Some username, ss_session_token := r\<rparr>"
    using assms(1) au by (auto simp: handle_login_def split: if_splits)
  then obtain t where t: "r = Some t" by auto
  have "t = token_urlsafe e \<and> user_sessions a' = (user_sessions (ss_memory_agent st))(t \<mapsto> now e)"
    using authenticate_user_ok_or_none [of sha "ss_memory_agent st" e username password] au t
    by simp
  then have tok: "r = Some (token_urlsafe e)"
    and issued: "user_sessions (ss_memory_agent st1) (token_urlsafe e) = Some (now e)"
    using t st1 by simp_all
  have v: "fst (validate_session (ss_memory_agent st1) e' (token_urlsafe e)) = True"
    using issued assms(2) by (simp add: validate_session_def)
  show ?thesis
    using tok st1 v by (simp add: logout_def)
qed

text \<open>Alice's login at time 7 with the token \<open>T2\<close>, her logout, a validation at time 8.\<close>

theorem logout_frame_witness:
  "ss_session_token (logout (snd (handle_login ex_hash ex_state (ex_env 7 ''T2'')
                                    ''alice'' ''s3cret''))) = None \<and>
   fst (validate_session
          (ss_memory_agent
             (logout (snd (handle_login ex_hash ex_state (ex_env 7 ''T2'') ''alice'' ''s3cret''))))
          (ex_env 8 ''T3'') ''T2'') = True"
proof -
  have ok: "next_ok (ss_memory_agent ex_state)"
    by (simp add: next_ok_def ex_defs)
  have reg: "registered ''alice'' (ex_hash ''s3cret'') (graph (ss_memory_agent ex_state))"
    by (simp add: registered_def is_user_def has_password_def ex_defs)
  have tok: "token_urlsafe (ex_env 7 ''T2'') \<noteq> []" "token_urlsafe (ex_env 7 ''T2'') = ''T2''"
    by (simp_all add: ex_env_def)
  have soon: "now (ex_env 8 ''T3'') - now (ex_env 7 ''T2'') \<le> session_timeout"
    by (simp add: ex_env_def session_timeout_def)
  obtain st1 where
    login: "handle_login ex_hash ex_state (ex_env 7 ''T2'') ''alice'' ''s3cret'' = (True, st1)"
    using handle_login_ok
      [where sha = ex_hash and password = "''s3cret''", OF ok reg tok(1)] by blast
  note th = logout_frame [OF login soon, unfolded tok(2)]
  have cleared: "ss_session_token (logout st1) = None"
    using th by blast
  have valid: "fst (validate_session (ss_memory_agent (logout st1)) (ex_env 8 ''T3'') ''T2'')
                 = True"
    using th by blast
  have st1: "snd (handle_login ex_hash ex_state (ex_env 7 ''T2'') ''alice'' ''s3cret'') = st1"
    by (simp add: login)
  show ?thesis
    unfolding st1 using cleared valid by blast
qed

subsection \<open>Reading the preferences of a user\<close>

text \<open>
  Whatever the agent and the username, \<open>get_user_preferences\<close> does not return a
  dictionary: either the driver raises, or the query runs and the \<^verbatim>\<open>await\<close> of its
  result raises. The graph is not changed.
\<close>

lemma get_user_preferences_never_returns:
  "(\<exists>ex. fst (get_user_preferences a username) = Inl ex) \<and>
   graph (snd (get_user_preferences a username)) = graph a"
  by (cases "faults a" rule: list.exhaust [case_names Nil Cons])
     (auto simp: get_user_preferences_def execute_query_def await_result_def
       match_preferences_def split: option.splits)

text \<open>
  C4. The claim says what \<open>get_user_preferences\<close> is written to return (its result
  type is a dictionary, and \<open>_format_preferences\<close> builds the three lists); the code
  does not return it. At \<open>ex_agent\<close>, with the store answering, the call raises
  \<^verbatim>\<open>TypeError\<close> at the \<^verbatim>\<open>await\<close> both for Alice, who has a user node and no recorded
  facts, and for \<open>ghost\<close>, who has no user node. Applied to the records of the same
  query, \<open>_format_preferences\<close> raises \<^verbatim>\<open>TypeError\<close> for Alice too, where it indexes
  the list of records with \<open>preferences\<close>, and returns the empty dictionary \<^verbatim>\<open>{}\<close>
  for \<open>ghost\<close>.
\<close>

theorem get_user_preferences_raises:
  "fst (get_user_preferences ex_agent ''alice'') =
     Inl (TypeError ''object EagerResult can not be used in await expression'') \<and>
   fst (get_user_preferences ex_agent ''ghost'') =
     Inl (TypeError ''object EagerResult can not be used in await expression'') \<and>
   format_preferences (fst (match_preferences ''alice'' (graph ex_agent))) =
     Inl (TypeError ''list indices must be integers or slices, not str'') \<and>
   format_preferences (fst (match_preferences ''ghost'' (graph ex_agent))) = Inr []"
  by (simp add: get_user_preferences_def execute_query_def await_result_def
      match_preferences_def format_preferences_def is_user_def ex_defs)

subsection \<open>Storing a memory\<close>




subsection \<open>Writing the extracted facts twice\<close>

text \<open>
  The parameters that \<open>_store_preferences\<close> sends have the one name \<open>parameters\<close>, so
  the query finds neither \<open>username\<close> nor \<open>text\<close> and the store refuses it.
\<close>

lemma create_preference_refused:
  "create_preference [(''parameters'', QMap m)] g =
     (Inl (ClientError ''Neo.ClientError.Statement.ParameterMissing''), g)"
  by (simp add: create_preference_def)

text \<open>
  Hence no call of \<open>_store_preferences\<close> changes the graph, whatever the agent, the
  username and the extracted data: the loop ends at its first entity, with
  \<^verbatim>\<open>KeyError\<close>, with what the driver raises, or with the refusal of the store.
\<close>

lemma store_entities_graph:
  "graph (snd (snd (store_entities a username p es))) = graph a"
proof (cases es)
  case Nil
  then show ?thesis by simp
next
  case (Cons en es')
  show ?thesis
  proof (cases "faults a" rule: list.exhaust [case_names No_script Script])
    case No_script
    then show ?thesis
      using Cons
      by (simp add: execute_query_def create_preference_refused split: option.splits)
  next
    case (Script f fs)
    then show ?thesis
      using Cons
      by (cases f)
         (simp_all add: execute_query_def create_preference_refused split: option.splits)
  qed
qed

lemma store_data_graph:
  "graph (snd (snd (store_data a username p ds))) = graph a"
proof (induction ds arbitrary: a p)
  case Nil
  then show ?case by simp
next
  case (Cons d ds)
  show ?case
  proof (cases "entities d")
    case None
    then show ?thesis using Cons.IH by simp
  next
    case (Some es)
    obtain r p1 a1 where s1: "store_entities a username p es = (r, p1, a1)"
      by (cases "store_entities a username p es")
    then have g1: "graph a1 = graph a"
      using store_entities_graph [of a username p es] by simp
    show ?thesis
      using Some s1 g1 Cons.IH [of a1 p1] by (cases r) simp_all
  qed
qed

lemma store_preferences_graph:
  "graph (snd (store_preferences a username extracted_data)) = graph a"
proof -
  obtain r p a' where s: "store_data a username None extracted_data = (r, p, a')"
    by (cases "store_data a username None extracted_data")
  then have "graph a' = graph a"
    using store_data_graph [of a username None extracted_data] by simp
  then show ?thesis
    using s by (simp add: store_preferences_def print_def split: option.splits)
qed

text \<open>
  C6. The claim says what \<open>_store_preferences\<close> is written to do (its query creates
  a Preference node and an INTERESTED_IN edge for each entity, with nothing that
  would deduplicate); the code does not do it. At \<open>ex_agent\<close>, where Alice has her
  one user node and the store answers, the call with the one fact \<open>likes hiking\<close>
  ends in the refusal of the store, which the handler prints together with the
  parameters attempted; the call returns normally and the graph is as it was. After
  the second call with the same input the graph has no Preference node and no edge:
  the count is 0, not 2.
\<close>

theorem store_preferences_twice_writes_nothing:
  "store_preferences ex_agent ''alice'' ex_facts =
     (None,
      ex_agent\<lparr>stdout :=
        [Error_storing_preferences (ClientError ''Neo.ClientError.Statement.ParameterMissing''),
         Parameters_attempted (''alice'', ''likes hiking'')]\<rparr>) \<and>
   fst (store_preferences (snd (store_preferences ex_agent ''alice'' ex_facts)) ''alice'' ex_facts)
     = None \<and>
   count_label Preference
     (graph (snd (store_preferences (snd (store_preferences ex_agent ''alice'' ex_facts))
                    ''alice'' ex_facts))) = 0 \<and>
   edges (graph (snd (store_preferences (snd (store_preferences ex_agent ''alice'' ex_facts))
                        ''alice'' ex_facts))) = []"
  by (simp add: store_preferences_def execute_query_def create_preference_refused print_def
      count_label_def ex_defs)

end
